theory Spec2Isabelle
  imports Complex_Main "HOL-Library.Char_ord" "HOL-Library.List_Lexorder"
    "HOL-Library.Product_Lexorder"
begin

section \<open>The expense tracker of app.py\<close>

text \<open>
  The class \<open>ExpenseTracker\<close> keeps a pandas frame \<open>expenses_df\<close> and a dict
  \<open>budgets\<close>. Amounts are Python floats; they are modelled as exact reals, so rounding
  of the floating-point sums is not part of the model. The wall clock
  (\<open>datetime.now()\<close>) and the permissive date parser (\<open>pd.to_datetime\<close>) are
  parameters of the functions that use them.
\<close>

subsection \<open>Data\<close>

text \<open>The calendar part of a pandas Timestamp, as \<open>.dt.year\<close> and \<open>.dt.month\<close> read it.\<close>

record timestamp =
  dt_year :: int
  dt_month :: int
  dt_day :: int

text \<open>
  A cell of the \<open>date\<close> column of an object-typed frame: a Timestamp carried over
  from a loaded frame, or the string \<open>add_expense\<close> stores.
\<close>

datatype date_cell = Ts timestamp | Str string

text \<open>
  One row of the frame. The columns \<open>year\<close> and \<open>month\<close> exist only after
  \<open>predict_next_month\<close> or \<open>show_ai_insights\<close> has run; \<open>None\<close> is an absent or
  NaN cell. The type of the date cell is a parameter: \<open>timestamp\<close> in a frame whose
  column is datetime64, \<open>date_cell\<close> in an object-typed frame, \<open>string\<close> in the
  CSV file.
\<close>

record 'd expense =
  date :: 'd
  category :: string
  amount :: real
  description :: string
  year :: "int option"
  month :: "int option"

text \<open>
  The frame with the dtype of its date column: \<open>load_data\<close> on an existing file
  yields datetime64; \<open>pd.DataFrame(columns=[...])\<close> and every \<open>pd.concat\<close> with
  a string cell yield object.
\<close>

datatype dataframe =
  Datetime64 "timestamp expense list"
| Object "date_cell expense list"

record tracker =
  expenses_df :: dataframe
  budgets :: "string \<rightharpoonup> real"

text \<open>The two files; \<open>None\<close> is a file that does not exist.\<close>

record files =
  data_file :: "string expense list option"
  budget_file :: "(string \<rightharpoonup> real) option"

datatype error = AttributeError

record alert =
  alert_category :: string
  alert_budget :: real
  alert_spent :: real
  alert_overspend :: real

subsection \<open>Frame helpers\<close>

definition map_date :: "('a \<Rightarrow> 'b) \<Rightarrow> 'a expense \<Rightarrow> 'b expense" where
  "map_date f r =
     \<lparr>date = f (date r), category = category r, amount = amount r,
      description = description r, year = year r, month = month r\<rparr>"

definition len :: "dataframe \<Rightarrow> nat" where
  "len df = (case df of Datetime64 rs \<Rightarrow> length rs | Object rs \<Rightarrow> length rs)"

text \<open>
  \<open>groupby(key)['amount'].sum()\<close> on a list of (key, amount) pairs: one entry per
  distinct key, in ascending key order, with the amounts of that key summed.
\<close>

definition groupby_sum :: "('k::linorder \<times> real) list \<Rightarrow> ('k \<times> real) list" where
  "groupby_sum kvs =
     map (\<lambda>k. (k, sum_list (map snd (filter (\<lambda>kv. fst kv = k) kvs))))
       (sort (remdups (map fst kvs)))"

subsection \<open>Aggregator\<close>

text \<open>
  \<open>get_monthly_summary\<close>: the \<open>.dt\<close> accessor raises AttributeError on a column
  that is not datetime-typed.
\<close>

definition get_monthly_summary ::
  "tracker \<Rightarrow> int \<Rightarrow> int \<Rightarrow> error + timestamp expense list" where
  "get_monthly_summary t y m =
     (case expenses_df t of
        Object _ \<Rightarrow> Inl AttributeError
      | Datetime64 rs \<Rightarrow>
          Inr (filter (\<lambda>r. dt_year (date r) = y \<and> dt_month (date r) = m) rs))"

definition get_category_totals ::
  "tracker \<Rightarrow> int \<Rightarrow> int \<Rightarrow> error + (string \<times> real) list" where
  "get_category_totals t y m =
     (case get_monthly_summary t y m of
        Inl e \<Rightarrow> Inl e
      | Inr monthly_data \<Rightarrow>
          if monthly_data = [] then Inr []
          else Inr (groupby_sum (map (\<lambda>r. (category r, amount r)) monthly_data)))"

subsection \<open>Budget monitor\<close>

text \<open>\<open>budgets.get(category, 0)\<close>.\<close>

definition get_or_0 :: "(string \<rightharpoonup> real) \<Rightarrow> string \<Rightarrow> real" where
  "get_or_0 b c = (case b c of Some v \<Rightarrow> v | None \<Rightarrow> 0)"

text \<open>The loop of \<open>check_budget_alerts\<close> over the rows of the category totals.\<close>

fun alerts_loop :: "(string \<rightharpoonup> real) \<Rightarrow> (string \<times> real) list \<Rightarrow> alert list" where
  "alerts_loop b [] = []"
| "alerts_loop b ((c, spent) # rest) =
     (let budget = get_or_0 b c in
      if budget > 0 \<and> spent > budget
      then \<lparr>alert_category = c, alert_budget = budget, alert_spent = spent,
             alert_overspend = spent - budget\<rparr> # alerts_loop b rest
      else alerts_loop b rest)"

definition check_budget_alerts :: "tracker \<Rightarrow> int \<Rightarrow> int \<Rightarrow> error + alert list" where
  "check_budget_alerts t y m =
     (case get_monthly_summary t y m of
        Inl e \<Rightarrow> Inl e
      | Inr monthly_data \<Rightarrow>
          if monthly_data = [] then Inr []
          else (case get_category_totals t y m of
                  Inl e \<Rightarrow> Inl e
                | Inr category_totals \<Rightarrow> Inr (alerts_loop (budgets t) category_totals)))"



subsection \<open>Record store\<close>

text \<open>
  \<open>date.strftime('%Y-%m-%d')\<close>: the year in four digits, month and day in two. The
  encodings of category, amount and description in the CSV file and of the budgets in the
  JSON file are taken to read back what was written.
\<close>

definition digit_char :: "nat \<Rightarrow> char" where
  "digit_char n = ''0123456789'' ! (n mod 10)"

definition pad2 :: "nat \<Rightarrow> string" where
  "pad2 n = [digit_char (n div 10), digit_char n]"

definition pad4 :: "nat \<Rightarrow> string" where
  "pad4 n = [digit_char (n div 1000), digit_char (n div 100), digit_char (n div 10), digit_char n]"

definition strftime_ymd :: "timestamp \<Rightarrow> string" where
  "strftime_ymd d =
     pad4 (nat (dt_year d)) @ ''-'' @ pad2 (nat (dt_month d)) @ ''-'' @ pad2 (nat (dt_day d))"

text \<open>
  The date argument of \<open>add_expense\<close>: an object with a \<open>strftime\<close> method (what
  the date picker of the entry form gives), or anything else, read through \<open>str\<close>.
\<close>

datatype date_arg = DateObj timestamp | Plain string

definition date_str :: "date_arg \<Rightarrow> string" where
  "date_str d = (case d of DateObj x \<Rightarrow> strftime_ymd x | Plain s \<Rightarrow> s)"

text \<open>The rows of a frame as an object-typed column holds them (\<open>pd.concat\<close>).\<close>

definition cells :: "dataframe \<Rightarrow> date_cell expense list" where
  "cells df = (case df of Datetime64 rs \<Rightarrow> map (map_date Ts) rs | Object rs \<Rightarrow> rs)"

text \<open>
  \<open>to_csv\<close>: a datetime64 column of midnight timestamps is written as dates; in an
  object column every cell is written through \<open>str\<close>, a Timestamp with its time.
\<close>

definition to_csv :: "dataframe \<Rightarrow> string expense list" where
  "to_csv df =
     (case df of
        Datetime64 rs \<Rightarrow> map (map_date strftime_ymd) rs
      | Object rs \<Rightarrow>
          map (map_date (\<lambda>c. case c of Ts d \<Rightarrow> strftime_ymd d @ '' 00:00:00'' | Str s \<Rightarrow> s)) rs)"

definition save_data :: "tracker \<Rightarrow> files" where
  "save_data t = \<lparr>data_file = Some (to_csv (expenses_df t)), budget_file = Some (budgets t)\<rparr>"

text \<open>
  \<open>dropna(subset=['date'])\<close> after \<open>pd.to_datetime(..., errors='coerce')\<close>: a cell
  the parser does not resolve is NaT (\<open>None\<close>) and its row is dropped.
\<close>

definition dropna :: "timestamp option expense list \<Rightarrow> timestamp expense list" where
  "dropna rs =
     List.map_filter
       (\<lambda>r. case date r of None \<Rightarrow> None | Some d \<Rightarrow> Some (map_date (\<lambda>_. d) r)) rs"

definition load_data :: "(string \<Rightarrow> timestamp option) \<Rightarrow> files \<Rightarrow> tracker" where
  "load_data to_datetime fs =
     \<lparr>expenses_df =
        (case data_file fs of
           Some csv \<Rightarrow> Datetime64 (dropna (map (map_date to_datetime) csv))
         | None \<Rightarrow> Object []),
      budgets = (case budget_file fs of Some b \<Rightarrow> b | None \<Rightarrow> Map.empty)\<rparr>"

text \<open>
  \<open>add_expense\<close>: the one-row frame \<open>new_expense\<close> with the date as a string,
  \<open>pd.concat\<close> onto the frame, then \<open>save_data\<close>. It checks none of its arguments.
\<close>

definition new_expense :: "date_arg \<Rightarrow> string \<Rightarrow> real \<Rightarrow> string \<Rightarrow> date_cell expense" where
  "new_expense d c a desc =
     \<lparr>date = Str (date_str d), category = c, amount = a, description = desc,
      year = None, month = None\<rparr>"

definition add_expense ::
  "tracker \<Rightarrow> date_arg \<Rightarrow> string \<Rightarrow> real \<Rightarrow> string \<Rightarrow> tracker \<times> files" where
  "add_expense t d c a desc =
     (let t' = t\<lparr>expenses_df := Object (cells (expenses_df t) @ [new_expense d c a desc])\<rparr>
      in (t', save_data t'))"

text \<open>
  Runs of the store: the tracker in memory and the files. The store starts with no
  files, as \<open>ExpenseTracker()\<close> finds it on a first start.
\<close>

datatype operation = Load | Append date_arg string real string

fun step ::
  "(string \<Rightarrow> timestamp option) \<Rightarrow> tracker \<times> files \<Rightarrow> operation \<Rightarrow> tracker \<times> files" where
  "step p (t, fs) Load = (load_data p fs, fs)"
| "step p (t, fs) (Append d c a desc) = add_expense t d c a desc"

definition no_files :: files where
  "no_files = \<lparr>data_file = None, budget_file = None\<rparr>"

definition run :: "(string \<Rightarrow> timestamp option) \<Rightarrow> operation list \<Rightarrow> tracker \<times> files" where
  "run p ops = foldl (step p) (load_data p no_files, no_files) ops"

text \<open>The (date, category, amount, description) tuples of a frame, in row order.\<close>

definition tuples :: "dataframe \<Rightarrow> (date_cell \<times> string \<times> real \<times> string) list" where
  "tuples df = map (\<lambda>r. (date r, category r, amount r, description r)) (cells df)"

text \<open>
  What the data model asks of a stored record: a positive amount and a date that
  resolves (a Timestamp, or a string the parser reads).
\<close>

definition resolvable :: "(string \<Rightarrow> timestamp option) \<Rightarrow> date_cell \<Rightarrow> bool" where
  "resolvable p c = (case c of Ts _ \<Rightarrow> True | Str s \<Rightarrow> p s \<noteq> None)"

definition record_ok :: "(string \<Rightarrow> timestamp option) \<Rightarrow> date_cell expense \<Rightarrow> bool" where
  "record_ok p r = (amount r > 0 \<and> resolvable p (date r))"

definition store_ok :: "(string \<Rightarrow> timestamp option) \<Rightarrow> tracker \<Rightarrow> bool" where
  "store_ok p t = list_all (record_ok p) (cells (expenses_df t))"

text \<open>
  An operation that keeps to the data model: an append with a positive amount (the
  guard of the entry form, \<open>amount > 0\<close>) and a date whose string the parser resolves
  (the form passes the date object of its date picker).
\<close>

fun valid_operation :: "(string \<Rightarrow> timestamp option) \<Rightarrow> operation \<Rightarrow> bool" where
  "valid_operation p Load = True"
| "valid_operation p (Append d c a desc) = (a > 0 \<and> p (date_str d) \<noteq> None)"

text \<open>The appends of a list of (date, category, amount, description) arguments.\<close>

definition append_op :: "date_arg \<times> string \<times> real \<times> string \<Rightarrow> operation" where
  "append_op x = (case x of (d, c, a, desc) \<Rightarrow> Append d c a desc)"


subsection \<open>Forecaster\<close>

text \<open>
  The assignments \<open>expenses_df['year'] = ...dt.year\<close> and
  \<open>expenses_df['month'] = ...dt.month\<close> on the tracker's own frame.
\<close>

definition set_year_month :: "timestamp expense list \<Rightarrow> timestamp expense list" where
  "set_year_month rs =
     map (\<lambda>r. r\<lparr>year := Some (dt_year (date r)), month := Some (dt_month (date r))\<rparr>) rs"

text \<open>
  The rows keyed by the \<open>year\<close> and \<open>month\<close> columns, as \<open>groupby(['year',
  'month'])\<close> reads them; a row with a NaN key takes part in no group.
\<close>

definition year_month_amounts :: "'d expense list \<Rightarrow> ((int \<times> int) \<times> real) list" where
  "year_month_amounts rs =
     List.map_filter
       (\<lambda>r. case (year r, month r) of
              (Some y, Some m) \<Rightarrow> Some ((y, m), amount r)
            | _ \<Rightarrow> None) rs"

definition mean :: "real list \<Rightarrow> real" where
  "mean xs = sum_list xs / real (length xs)"

text \<open>
  Modelled from the spec: \<open>sklearn.linear_model.LinearRegression\<close> is a library
  class, not under src/. The spec calls it ordinary least-squares linear regression
  with one feature; \<open>fit\<close> is modelled by the closed form on centred data (slope
  and intercept), \<open>predict\<close> by the fitted line.
\<close>

definition linreg_fit :: "(real \<times> real) list \<Rightarrow> real \<times> real" where
  "linreg_fit pts =
     (let xbar = mean (map fst pts);
          ybar = mean (map snd pts);
          sxx = sum_list (map (\<lambda>(x, y). (x - xbar) * (x - xbar)) pts);
          sxy = sum_list (map (\<lambda>(x, y). (x - xbar) * (y - ybar)) pts);
          coef = (if sxx = 0 then 0 else sxy / sxx)
      in (coef, ybar - coef * xbar))"

definition linreg_predict :: "real \<times> real \<Rightarrow> real \<Rightarrow> real" where
  "linreg_predict model x = fst model * x + snd model"

text \<open>The regression points: \<open>month_num = year * 12 + month\<close> against the total.\<close>

definition month_points :: "((int \<times> int) \<times> real) list \<Rightarrow> (real \<times> real) list" where
  "month_points monthly_totals =
     map (\<lambda>((y, m), total). (real_of_int (y * 12 + m), total)) monthly_totals"

text \<open>
  \<open>predict_next_month\<close>, with the wall clock as arguments. It returns its result
  and the tracker as the call leaves it.
\<close>

definition predict_next_month ::
  "tracker \<Rightarrow> int \<Rightarrow> int \<Rightarrow> error + ((real option \<times> string) \<times> tracker)" where
  "predict_next_month t current_year current_month =
     (if len (expenses_df t) < 3 then Inr ((None, ''Not enough data for prediction''), t)
      else
        (case expenses_df t of
           Object _ \<Rightarrow> Inl AttributeError
         | Datetime64 rs \<Rightarrow>
             (let t' = t\<lparr>expenses_df := Datetime64 (set_year_month rs)\<rparr>;
                  monthly_totals = groupby_sum (year_month_amounts (set_year_month rs))
              in if length monthly_totals < 3
                 then Inr ((None, ''Not enough monthly data for prediction''), t')
                 else
                   (let model = linreg_fit (month_points monthly_totals);
                        next_month_num = current_year * 12 + current_month + 1;
                        prediction = linreg_predict model (real_of_int next_month_num)
                    in Inr ((Some (max 0 prediction), ''Prediction based on historical data''),
                            t')))))"

subsection \<open>Insight engine\<close>

text \<open>
  The averages and ratios are numpy float64 values: a division by zero raises nothing
  and gives an infinity or NaN, and every comparison with NaN is false.
\<close>

datatype float64 = Finite real | PosInf | NegInf | NaN

definition truediv :: "real \<Rightarrow> real \<Rightarrow> float64" where
  "truediv a b =
     (if b \<noteq> 0 then Finite (a / b)
      else if a > 0 then PosInf else if a < 0 then NegInf else NaN)"

fun times100 :: "float64 \<Rightarrow> float64" where
  "times100 (Finite x) = Finite (x * 100)"
| "times100 v = v"

fun gt :: "float64 \<Rightarrow> real \<Rightarrow> bool" where
  "gt (Finite x) c = (x > c)"
| "gt PosInf c = True"
| "gt v c = False"

fun lt :: "float64 \<Rightarrow> real \<Rightarrow> bool" where
  "lt (Finite x) c = (x < c)"
| "lt NegInf c = True"
| "lt v c = False"

text \<open>\<open>Series.tail(n)\<close> and \<open>Series.head(-n)\<close>.\<close>

definition tail :: "nat \<Rightarrow> 'a list \<Rightarrow> 'a list" where
  "tail n xs = drop (length xs - n) xs"

definition head_neg :: "nat \<Rightarrow> 'a list \<Rightarrow> 'a list" where
  "head_neg n xs = take (length xs - n) xs"

datatype trend = Increasing | Decreasing | Stable

definition spending_trend :: "real list \<Rightarrow> (trend \<times> float64) option" where
  "spending_trend monthly_totals =
     (if length monthly_totals \<ge> 2 then
        (let recent_avg = mean (tail 3 monthly_totals);
             previous_avg =
               (if length monthly_totals > 3 then mean (head_neg 3 monthly_totals)
                else monthly_totals ! 0);
             change_percent = times100 (truediv (recent_avg - previous_avg) previous_avg)
         in if gt change_percent 10 then Some (Increasing, change_percent)
            else if lt change_percent (- 10) then Some (Decreasing, change_percent)
            else Some (Stable, change_percent))
      else None)"

text \<open>\<open>Series.std()\<close>: the sample standard deviation (one degree of freedom off).\<close>

definition std :: "real list \<Rightarrow> real" where
  "std xs = sqrt (sum_list (map (\<lambda>x. (x - mean xs) * (x - mean xs)) xs) / real (length xs - 1))"

datatype consistency = Inconsistent | Consistent

definition spending_consistency :: "real list \<Rightarrow> consistency option" where
  "spending_consistency monthly_totals =
     (if length monthly_totals \<ge> 3 then
        (let monthly_std = std monthly_totals;
             monthly_mean = mean monthly_totals;
             cv = truediv monthly_std monthly_mean
         in if gt cv (3 / 10) then Some Inconsistent else Some Consistent)
      else None)"

record insights =
  trend_signal :: "(trend \<times> float64) option"
  consistency_signal :: "consistency option"

text \<open>
  \<open>show_ai_insights\<close>: the trend and the consistency signals it writes to the page
  (the category ranking and the recommendations between them raise nothing and are left
  out), and the tracker as the call leaves it. On an empty frame it warns and returns.
\<close>

definition show_ai_insights :: "tracker \<Rightarrow> error + (insights option \<times> tracker)" where
  "show_ai_insights t =
     (if len (expenses_df t) = 0 then Inr (None, t)
      else
        (case expenses_df t of
           Object _ \<Rightarrow> Inl AttributeError
         | Datetime64 rs \<Rightarrow>
             (let t' = t\<lparr>expenses_df := Datetime64 (set_year_month rs)\<rparr>;
                  monthly_totals = map snd (groupby_sum (year_month_amounts (set_year_month rs)))
              in Inr (Some \<lparr>trend_signal = spending_trend monthly_totals,
                             consistency_signal = spending_consistency monthly_totals\<rparr>,
                      t'))))"

subsection \<open>The read-only operations as calls on the store\<close>

datatype query =
  MonthlySummary int int
| CategoryTotals int int
| CheckAlerts int int
| PredictNextPeriod int int
| InsightQueries

text \<open>The tracker after a call that returns; \<open>Inl\<close> when the call raises.\<close>

fun state_after :: "query \<Rightarrow> tracker \<Rightarrow> error + tracker" where
  "state_after (MonthlySummary y m) t =
     (case get_monthly_summary t y m of Inl e \<Rightarrow> Inl e | Inr _ \<Rightarrow> Inr t)"
| "state_after (CategoryTotals y m) t =
     (case get_category_totals t y m of Inl e \<Rightarrow> Inl e | Inr _ \<Rightarrow> Inr t)"
| "state_after (CheckAlerts y m) t =
     (case check_budget_alerts t y m of Inl e \<Rightarrow> Inl e | Inr _ \<Rightarrow> Inr t)"
| "state_after (PredictNextPeriod cy cm) t =
     (case predict_next_month t cy cm of Inl e \<Rightarrow> Inl e | Inr (_, t') \<Rightarrow> Inr t')"
| "state_after InsightQueries t =
     (case show_ai_insights t of Inl e \<Rightarrow> Inl e | Inr (_, t') \<Rightarrow> Inr t')"

subsection \<open>The words of the forecast claims\<close>

text \<open>
  The distinct (year, month) buckets of a frame, and the monthly totals series of the
  specification: the amounts summed per bucket, in ascending order of the bucket.
\<close>

definition month_buckets :: "timestamp expense list \<Rightarrow> (int \<times> int) set" where
  "month_buckets rs = (\<lambda>r. (dt_year (date r), dt_month (date r))) ` set rs"

definition monthly_totals_series :: "timestamp expense list \<Rightarrow> ((int \<times> int) \<times> real) list" where
  "monthly_totals_series rs =
     groupby_sum (map (\<lambda>r. ((dt_year (date r), dt_month (date r)), amount r)) rs)"





subsection \<open>The words of the insight claims\<close>

text \<open>
  The averages of the trend insight as the specification words them: the mean of the
  last 3 monthly totals (or of all when fewer), the mean of all but the last 3 (the
  earliest total when there are 3 or fewer), the change in percent and its class; and
  the coefficient of variation of the consistency check.
\<close>

definition recent_average :: "real list \<Rightarrow> real" where
  "recent_average totals = mean (rev (take 3 (rev totals)))"

definition previous_average :: "real list \<Rightarrow> real" where
  "previous_average totals =
     (if length totals > 3 then mean (rev (drop 3 (rev totals))) else hd totals)"

definition change_percent :: "real list \<Rightarrow> real" where
  "change_percent totals =
     (recent_average totals - previous_average totals) / previous_average totals * 100"



subsection \<open>Example stores\<close>

text \<open>A parser for the examples: it resolves the two date strings it knows.\<close>

definition example_parser :: "string \<Rightarrow> timestamp option" where
  "example_parser s =
     (if s = ''2024-01-05'' then Some \<lparr>dt_year = 2024, dt_month = 1, dt_day = 5\<rparr>
      else if s = ''2024-02-10'' then Some \<lparr>dt_year = 2024, dt_month = 2, dt_day = 10\<rparr>
      else None)"

text \<open>The example scenario of the specification.\<close>

definition spec_records :: "timestamp expense list" where
  "spec_records =
     [\<lparr>date = \<lparr>dt_year = 2024, dt_month = 1, dt_day = 5\<rparr>, category = ''Food'', amount = 500,
        description = ''lunch'', year = None, month = None\<rparr>,
      \<lparr>date = \<lparr>dt_year = 2024, dt_month = 1, dt_day = 20\<rparr>, category = ''Food'', amount = 300,
        description = ''dinner'', year = None, month = None\<rparr>,
      \<lparr>date = \<lparr>dt_year = 2024, dt_month = 2, dt_day = 10\<rparr>, category = ''Food'', amount = 200,
        description = ''snack'', year = None, month = None\<rparr>]"

definition spec_tracker :: tracker where
  "spec_tracker = \<lparr>expenses_df = Datetime64 spec_records, budgets = [''Food'' \<mapsto> 700]\<rparr>"




text \<open>
  Three appends, the second with a string that is no date; and an append of a negative
  amount followed by a load.
\<close>

definition example_inputs :: "(date_arg \<times> string \<times> real \<times> string) list" where
  "example_inputs =
     [(DateObj \<lparr>dt_year = 2024, dt_month = 1, dt_day = 5\<rparr>, ''Food'', 500, ''lunch''),
      (Plain ''not a date'', ''Food'', 300, ''dinner''),
      (DateObj \<lparr>dt_year = 2024, dt_month = 2, dt_day = 10\<rparr>, ''Food'', 200, ''snack'')]"

definition refund_run :: "operation list" where
  "refund_run =
     [Append (DateObj \<lparr>dt_year = 2024, dt_month = 1, dt_day = 5\<rparr>) ''Food'' (- 5) ''refund'', Load]"

section \<open>Properties\<close>

subsection \<open>Grouping\<close>

lemma groupby_sum_keys: "map fst (groupby_sum kvs) = sort (remdups (map fst kvs))"
  by (simp add: groupby_sum_def comp_def)






lemma groupby_sum_Nil: "groupby_sum [] = []"
  by (simp add: groupby_sum_def)







subsection \<open>Aggregator and budget monitor\<close>



lemma spec_tracker_df: "expenses_df spec_tracker = Datetime64 spec_records"
  by (simp add: spec_tracker_def)

lemma spec_summary_jan:
  "get_monthly_summary spec_tracker 2024 1 = Inr (take 2 spec_records)"
  by (simp add: get_monthly_summary_def spec_tracker_def spec_records_def)

lemma spec_totals_jan: "get_category_totals spec_tracker 2024 1 = Inr [(''Food'', 800)]"
  by (simp add: get_category_totals_def spec_summary_jan spec_records_def groupby_sum_def)

lemma spec_alerts_jan:
  "check_budget_alerts spec_tracker 2024 1 =
     Inr [\<lparr>alert_category = ''Food'', alert_budget = 700, alert_spent = 800, alert_overspend = 100\<rparr>]"
  by (simp add: check_budget_alerts_def spec_totals_jan spec_summary_jan get_or_0_def)
     (simp add: spec_records_def spec_tracker_def)



subsection \<open>Forecaster\<close>









lemma year_month_amounts_set:
  "year_month_amounts (set_year_month rs) =
     map (\<lambda>r. ((dt_year (date r), dt_month (date r)), amount r)) rs"
  by (induction rs) (simp_all add: year_month_amounts_def set_year_month_def List.map_filter_simps)

lemma series_eq: "groupby_sum (year_month_amounts (set_year_month rs)) = monthly_totals_series rs"
  by (simp add: year_month_amounts_set monthly_totals_series_def)

lemma series_keys: "set (map fst (monthly_totals_series rs)) = month_buckets rs"
  by (simp add: monthly_totals_series_def groupby_sum_keys month_buckets_def image_image)

lemma series_length: "length (monthly_totals_series rs) = card (month_buckets rs)"
proof -
  have "length (monthly_totals_series rs) = length (map fst (monthly_totals_series rs))" by simp
  also have "\<dots> = card (set (map fst (monthly_totals_series rs)))"
    unfolding monthly_totals_series_def groupby_sum_keys
    by (simp add: length_remdups_card_conv)
  finally show ?thesis by (simp only: series_keys)
qed





lemma predict_loaded:
  assumes "expenses_df t = Datetime64 rs" "3 \<le> length rs"
  shows "predict_next_month t cy cm =
    (if card (month_buckets rs) < 3
     then Inr ((None, ''Not enough monthly data for prediction''),
               t\<lparr>expenses_df := Datetime64 (set_year_month rs)\<rparr>)
     else Inr ((Some (max 0 (linreg_predict (linreg_fit (month_points (monthly_totals_series rs)))
                        (real_of_int (cy * 12 + cm + 1)))),
                ''Prediction based on historical data''),
               t\<lparr>expenses_df := Datetime64 (set_year_month rs)\<rparr>))"
  using assms
  by (simp add: predict_next_month_def len_def Let_def series_eq series_length)
































subsection \<open>Insight engine\<close>








lemma spending_trend_few: "length totals < 2 \<Longrightarrow> spending_trend totals = None"
  by (simp add: spending_trend_def)













subsection \<open>Frame of the read-only operations\<close>

lemma tuples_set_year_month:
  "tuples (Datetime64 (set_year_month rs)) = tuples (Datetime64 rs)"
  by (simp add: tuples_def cells_def set_year_month_def map_date_def comp_def)

lemma predict_state:
  assumes "predict_next_month t cy cm = Inr (res, t')"
  shows "t' = t \<or> (\<exists>rs. expenses_df t = Datetime64 rs \<and>
            t' = t\<lparr>expenses_df := Datetime64 (set_year_month rs)\<rparr>)"
  using assms
  by (auto simp: predict_next_month_def Let_def split: if_splits dataframe.splits)

lemma insights_state:
  assumes "show_ai_insights t = Inr (res, t')"
  shows "t' = t \<or> (\<exists>rs. expenses_df t = Datetime64 rs \<and>
            t' = t\<lparr>expenses_df := Datetime64 (set_year_month rs)\<rparr>)"
  using assms
  by (auto simp: show_ai_insights_def Let_def split: if_splits dataframe.splits)

lemma state_after_cases:
  assumes "state_after q t = Inr t'"
  shows "t' = t \<or> (\<exists>rs. expenses_df t = Datetime64 rs \<and>
            t' = t\<lparr>expenses_df := Datetime64 (set_year_month rs)\<rparr>)"
proof (cases q)
  case (MonthlySummary y m)
  with assms show ?thesis by (simp split: sum.splits)
next
  case (CategoryTotals y m)
  with assms show ?thesis by (simp split: sum.splits)
next
  case (CheckAlerts y m)
  with assms show ?thesis by (simp split: sum.splits)
next
  case (PredictNextPeriod cy cm)
  with assms obtain res where "predict_next_month t cy cm = Inr (res, t')"
    by (auto split: sum.splits)
  then show ?thesis by (rule predict_state)
next
  case InsightQueries
  with assms obtain res where "show_ai_insights t = Inr (res, t')"
    by (auto split: sum.splits)
  then show ?thesis by (rule insights_state)
qed

lemma state_after_pure:
  assumes "state_after q t = Inr t'"
    and "q = MonthlySummary y m \<or> q = CategoryTotals y m \<or> q = CheckAlerts y m"
  shows "t' = t"
  using assms by (auto split: sum.splits)

text \<open>
  C9, as amended: a call of \<open>get_monthly_summary\<close>, \<open>get_category_totals\<close> or
  \<open>check_budget_alerts\<close> that returns leaves the tracker as it was. A call of
  \<open>predict_next_month\<close> or \<open>show_ai_insights\<close> that returns leaves the budgets and
  the (date, category, amount, description) tuples of the records as they were, same
  records in the same order; the tracker is either unchanged or differs exactly in the
  \<open>year\<close> and \<open>month\<close> columns, which the call has written from the dates.
\<close>

theorem queries_frame:
  assumes "state_after q t = Inr t'"
  shows "budgets t' = budgets t \<and>
     tuples (expenses_df t') = tuples (expenses_df t) \<and>
     (t' = t \<or> (\<exists>rs. expenses_df t = Datetime64 rs \<and>
            t' = t\<lparr>expenses_df := Datetime64 (set_year_month rs)\<rparr>)) \<and>
     ((\<exists>y m. q = MonthlySummary y m \<or> q = CategoryTotals y m \<or> q = CheckAlerts y m)
        \<longrightarrow> t' = t)"
proof -
  have c: "t' = t \<or> (\<exists>rs. expenses_df t = Datetime64 rs \<and>
            t' = t\<lparr>expenses_df := Datetime64 (set_year_month rs)\<rparr>)"
    by (rule state_after_cases [OF assms])
  have b: "budgets t' = budgets t" using c by auto
  have tu: "tuples (expenses_df t') = tuples (expenses_df t)"
    using c by (auto simp: tuples_set_year_month)
  have pu: "(\<exists>y m. q = MonthlySummary y m \<or> q = CategoryTotals y m \<or> q = CheckAlerts y m)
        \<longrightarrow> t' = t"
    using state_after_pure [OF assms] by blast
  show ?thesis using b tu c pu by blast
qed

lemma spec_predict_state:
  "state_after (PredictNextPeriod 2024 3) spec_tracker =
     Inr (spec_tracker\<lparr>expenses_df := Datetime64 (set_year_month spec_records)\<rparr>)"
proof -
  have l: "3 \<le> length spec_records" by (simp add: spec_records_def)
  have c: "card (month_buckets spec_records) < 3"
    by (simp add: spec_records_def month_buckets_def)
  show ?thesis
    by (simp add: predict_loaded [OF spec_tracker_df l] c)
qed

text \<open>
  C9 as stated fails: \<open>predict_next_month\<close> on the example scenario (3 records, 2
  months) returns its "not enough monthly data" result and has by then written the
  \<open>year\<close> column of every record, which was absent before.
\<close>

theorem queries_frame_counterexample:
  "state_after (PredictNextPeriod 2024 3) spec_tracker =
     Inr (spec_tracker\<lparr>expenses_df := Datetime64 (set_year_month spec_records)\<rparr>) \<and>
   map year spec_records = [None, None, None] \<and>
   map year (set_year_month spec_records) = [Some 2024, Some 2024, Some 2024] \<and>
   spec_tracker\<lparr>expenses_df := Datetime64 (set_year_month spec_records)\<rparr> \<noteq> spec_tracker"
proof -
  have a: "map year spec_records = [None, None, None]" by (simp add: spec_records_def)
  have b: "map year (set_year_month spec_records) = [Some 2024, Some 2024, Some 2024]"
    by (simp add: spec_records_def set_year_month_def)
  have "expenses_df (spec_tracker\<lparr>expenses_df := Datetime64 (set_year_month spec_records)\<rparr>)
      \<noteq> expenses_df spec_tracker"
  proof
    assume "expenses_df (spec_tracker\<lparr>expenses_df := Datetime64 (set_year_month spec_records)\<rparr>)
      = expenses_df spec_tracker"
    then have "set_year_month spec_records = spec_records" by (simp add: spec_tracker_df)
    then have "map year (set_year_month spec_records) = map year spec_records" by simp
    with a b show False by simp
  qed
  then have "spec_tracker\<lparr>expenses_df := Datetime64 (set_year_month spec_records)\<rparr> \<noteq> spec_tracker"
    by (rule contrapos_nn) (rule arg_cong)
  with spec_predict_state a b show ?thesis by blast
qed

theorem queries_frame_witness:
  "state_after (PredictNextPeriod 2024 3) spec_tracker =
     Inr (spec_tracker\<lparr>expenses_df := Datetime64 (set_year_month spec_records)\<rparr>) \<and>
   budgets (spec_tracker\<lparr>expenses_df := Datetime64 (set_year_month spec_records)\<rparr>) =
     budgets spec_tracker \<and>
   tuples (expenses_df (spec_tracker\<lparr>expenses_df := Datetime64 (set_year_month spec_records)\<rparr>)) =
     tuples (expenses_df spec_tracker) \<and>
   state_after (CheckAlerts 2024 1) spec_tracker = Inr spec_tracker"
proof -
  have ca: "state_after (CheckAlerts 2024 1) spec_tracker = Inr spec_tracker"
    by (simp add: spec_alerts_jan)
  from queries_frame [OF spec_predict_state] ca spec_predict_state
  show ?thesis by blast
qed

subsection \<open>Record store\<close>










lemma strftime_jan5: "strftime_ymd \<lparr>dt_year = 2024, dt_month = 1, dt_day = 5\<rparr> = ''2024-01-05''"
  by (simp add: strftime_ymd_def pad4_def pad2_def digit_char_def)




lemma dropna_amounts:
  "list_all (\<lambda>r. 0 < amount r) csv \<Longrightarrow>
   list_all (\<lambda>r. 0 < amount r) (dropna (map (map_date p) csv))"
  by (induction csv)
     (auto simp: dropna_def List.map_filter_simps map_date_def split: option.splits)

lemma load_dates:
  "list_all (\<lambda>r. \<exists>ts. date r = Ts ts) (cells (expenses_df (load_data p fs)))"
  by (cases "data_file fs") (simp_all add: load_data_def cells_def list_all_iff map_date_def)

lemma load_ok:
  assumes "case data_file fs of None \<Rightarrow> True | Some csv \<Rightarrow> list_all (\<lambda>r. 0 < amount r) csv"
  shows "store_ok p (load_data p fs)"
proof (cases "data_file fs")
  case None
  then show ?thesis by (simp add: store_ok_def load_data_def cells_def)
next
  case (Some csv)
  with assms have "list_all (\<lambda>r. 0 < amount r) (dropna (map (map_date p) csv))"
    by (simp add: dropna_amounts)
  then show ?thesis
    using Some
    by (simp add: store_ok_def load_data_def cells_def list_all_iff record_ok_def resolvable_def
          map_date_def)
qed

lemma to_csv_amounts:
  "list_all (\<lambda>r. 0 < amount r) (to_csv df) = list_all (\<lambda>r. 0 < amount r) (cells df)"
  by (cases df) (simp_all add: to_csv_def cells_def list_all_iff map_date_def)

lemma store_ok_amounts:
  "store_ok p t \<Longrightarrow> list_all (\<lambda>r. 0 < amount r) (cells (expenses_df t))"
  by (simp add: store_ok_def list_all_iff record_ok_def)

lemma append_ok:
  assumes "store_ok p t" "0 < a" "p (date_str d) \<noteq> None"
  shows "store_ok p (fst (add_expense t d c a desc))"
    and "data_file (snd (add_expense t d c a desc)) =
           Some (to_csv (expenses_df (fst (add_expense t d c a desc))))"
  using assms
  by (simp_all add: add_expense_def Let_def store_ok_def cells_def record_ok_def resolvable_def
        new_expense_def save_data_def)

lemma step_inv:
  assumes "store_ok p (fst s)"
    and "case data_file (snd s) of None \<Rightarrow> True | Some csv \<Rightarrow> list_all (\<lambda>r. 0 < amount r) csv"
    and "valid_operation p x"
  shows "store_ok p (fst (step p s x)) \<and>
    (case data_file (snd (step p s x)) of None \<Rightarrow> True
     | Some csv \<Rightarrow> list_all (\<lambda>r. 0 < amount r) csv)"
proof (cases x)
  case Load
  obtain t fs where s: "s = (t, fs)" by (cases s)
  from assms(2) show ?thesis by (simp add: Load s load_ok)
next
  case (Append d c a desc)
  obtain t fs where s: "s = (t, fs)" by (cases s)
  from assms(3) Append have v: "0 < a" "p (date_str d) \<noteq> None" by simp_all
  from assms(1) s have ok: "store_ok p t" by simp
  have 1: "store_ok p (fst (add_expense t d c a desc))" by (rule append_ok(1) [OF ok v])
  have 2: "data_file (snd (add_expense t d c a desc)) =
           Some (to_csv (expenses_df (fst (add_expense t d c a desc))))"
    by (rule append_ok(2) [OF ok v])
  show ?thesis
    using 1 store_ok_amounts [OF 1] by (simp add: Append s 2 to_csv_amounts)
qed

lemma foldl_inv:
  assumes "store_ok p (fst s)"
    and "case data_file (snd s) of None \<Rightarrow> True | Some csv \<Rightarrow> list_all (\<lambda>r. 0 < amount r) csv"
    and "list_all (valid_operation p) ops"
  shows "store_ok p (fst (foldl (step p) s ops))"
  using assms
proof (induction ops arbitrary: s)
  case Nil
  then show ?case by simp
next
  case (Cons x xs)
  from Cons.prems(3) have vx: "valid_operation p x" and vxs: "list_all (valid_operation p) xs"
    by simp_all
  from step_inv [OF Cons.prems(1,2) vx]
  have "store_ok p (fst (step p s x))"
    and "case data_file (snd (step p s x)) of None \<Rightarrow> True
     | Some csv \<Rightarrow> list_all (\<lambda>r. 0 < amount r) csv"
    by simp_all
  from Cons.IH [OF this vxs] show ?case by simp
qed

text \<open>
  C10, as amended: every store reached from the empty store by loads and by appends with
  a positive amount and a date the parser resolves holds only records with a positive
  amount and a resolvable date; and after any load every date of the frame is a
  Timestamp, so no record with an unparseable date is retained.
\<close>

theorem valid_runs_store_ok:
  "(list_all (valid_operation p) ops \<longrightarrow> store_ok p (fst (run p ops))) \<and>
   list_all (\<lambda>r. \<exists>ts. date r = Ts ts) (cells (expenses_df (load_data p fs)))"
proof (intro conjI impI)
  assume v: "list_all (valid_operation p) ops"
  have 1: "store_ok p (fst (load_data p no_files, no_files))"
    by (simp add: store_ok_def load_data_def no_files_def cells_def)
  have 2: "case data_file (snd (load_data p no_files, no_files)) of None \<Rightarrow> True
     | Some csv \<Rightarrow> list_all (\<lambda>r. 0 < amount r) csv"
    by (simp add: no_files_def)
  show "store_ok p (fst (run p ops))"
    unfolding run_def by (rule foldl_inv [OF 1 2 v])
next
  show "list_all (\<lambda>r. \<exists>ts. date r = Ts ts) (cells (expenses_df (load_data p fs)))"
    by (rule load_dates)
qed

lemma refund_append:
  "map amount (cells (expenses_df (fst (run example_parser (take 1 refund_run))))) = [- 5]"
  by (simp add: refund_run_def run_def add_expense_def Let_def load_data_def no_files_def
        cells_def new_expense_def)

lemma refund_load:
  "map amount (cells (expenses_df (fst (run example_parser refund_run)))) = [- 5]"
  by (simp add: refund_run_def run_def add_expense_def Let_def load_data_def no_files_def
        cells_def new_expense_def save_data_def to_csv_def dropna_def List.map_filter_simps
        map_date_def date_str_def strftime_jan5 example_parser_def)

lemma not_ok_amount:
  "map amount (cells (expenses_df t)) = [- 5] \<Longrightarrow> \<not> store_ok p t"
  by (auto simp: store_ok_def list_all_iff record_ok_def)

lemma garbage_append:
  "map date (cells (expenses_df (fst (run example_parser
      [Append (Plain ''not a date'') ''Food'' 5 ''lunch''])))) = [Str ''not a date'']"
  by (simp add: run_def add_expense_def Let_def load_data_def no_files_def
        cells_def new_expense_def date_str_def)

text \<open>
  C10 as stated fails: \<open>add_expense\<close> stores an amount of -5 and a date string that
  is no date as they are, and the load after the append keeps the amount of -5.
\<close>

theorem store_invariant_counterexample:
  "map amount (cells (expenses_df (fst (run example_parser (take 1 refund_run))))) = [- 5] \<and>
   \<not> store_ok example_parser (fst (run example_parser (take 1 refund_run))) \<and>
   map amount (cells (expenses_df (fst (run example_parser refund_run)))) = [- 5] \<and>
   \<not> store_ok example_parser (fst (run example_parser refund_run)) \<and>
   map date (cells (expenses_df (fst (run example_parser
      [Append (Plain ''not a date'') ''Food'' 5 ''lunch''])))) = [Str ''not a date''] \<and>
   \<not> resolvable example_parser (Str ''not a date'')"
proof -
  have "\<not> resolvable example_parser (Str ''not a date'')"
    by (simp add: resolvable_def example_parser_def)
  with refund_append refund_load garbage_append
    not_ok_amount [OF refund_append] not_ok_amount [OF refund_load]
  show ?thesis by blast
qed

theorem valid_runs_store_ok_witness:
  "list_all (valid_operation example_parser) (map append_op (take 1 example_inputs) @ [Load]) \<and>
   store_ok example_parser
     (fst (run example_parser (map append_op (take 1 example_inputs) @ [Load]))) \<and>
   tuples (expenses_df
     (fst (run example_parser (map append_op (take 1 example_inputs) @ [Load])))) =
     [(Ts \<lparr>dt_year = 2024, dt_month = 1, dt_day = 5\<rparr>, ''Food'', 500, ''lunch'')]"
proof -
  have v: "list_all (valid_operation example_parser)
      (map append_op (take 1 example_inputs) @ [Load])"
    by (simp add: example_inputs_def append_op_def date_str_def strftime_jan5 example_parser_def)
  have t: "tuples (expenses_df
     (fst (run example_parser (map append_op (take 1 example_inputs) @ [Load])))) =
     [(Ts \<lparr>dt_year = 2024, dt_month = 1, dt_day = 5\<rparr>, ''Food'', 500, ''lunch'')]"
    by (simp add: example_inputs_def append_op_def run_def add_expense_def Let_def load_data_def
        no_files_def cells_def new_expense_def save_data_def to_csv_def dropna_def
        List.map_filter_simps map_date_def date_str_def strftime_jan5 example_parser_def
        tuples_def)
  from valid_runs_store_ok [of example_parser
      "map append_op (take 1 example_inputs) @ [Load]" no_files] v
  have "store_ok example_parser
     (fst (run example_parser (map append_op (take 1 example_inputs) @ [Load])))"
    by blast
  with v t show ?thesis by blast
qed

end
